theory Spec2Isabelle
  imports Main
begin

section \<open>JavaScript values\<close>

text \<open>
  The values that flow through \<^verbatim>\<open>src/attempt.ts\<close>. A number is carried by its string
  form, the one that \<^verbatim>\<open>String\<close> and JSON give for it; the strings of the numbers that are
  not finite are NaN, Infinity and -Infinity, and -0 is not told apart from 0. A plain
  object lists its own enumerable string-keyed properties in enumeration order. An Error
  instance carries what reading its \<^verbatim>\<open>name\<close> and its \<^verbatim>\<open>message\<close> gives, both strings,
  and then its own enumerable properties (the fields of a subclass) together with the
  methods that a read of a property finds on it. A function value carries its source text
  (what \<^verbatim>\<open>String\<close> gives for it) and the completion of calling it; the functions modelled
  ignore their arguments and their receiver. A native Promise carries the state it settles
  to. Arrays, symbols and accessors are outside the model.
\<close>

datatype jsval =
    Undefined
  | Null
  | Bool bool
  | Num string
  | Str string
  | ErrorObj string string "(string \<times> jsval) list"
  | Obj "(string \<times> jsval) list"
  | Fn string completion
  | PromiseV pstate
and completion = Return jsval | Throw jsval
and pstate = Fulfilled jsval | Rejected jsval | Pending

text \<open>\<^verbatim>\<open>new Error(message)\<close> and the TypeError the runtime raises.\<close>

definition new_Error :: "string \<Rightarrow> jsval" where
  "new_Error message = ErrorObj ''Error'' message []"

definition TypeError :: "string \<Rightarrow> jsval" where
  "TypeError message = ErrorObj ''TypeError'' message []"

text \<open>\<^verbatim>\<open>v instanceof Error\<close> and \<^verbatim>\<open>v instanceof Promise\<close>.\<close>

fun instanceof_Error :: "jsval \<Rightarrow> bool" where
  "instanceof_Error (ErrorObj name message ps) = True"
| "instanceof_Error v = False"

fun instanceof_Promise :: "jsval \<Rightarrow> bool" where
  "instanceof_Promise (PromiseV p) = True"
| "instanceof_Promise v = False"

text \<open>Whether a value is an object in the sense of the language (not a primitive).\<close>

fun is_object :: "jsval \<Rightarrow> bool" where
  "is_object (ErrorObj name message ps) = True"
| "is_object (Obj ps) = True"
| "is_object (Fn src c) = True"
| "is_object (PromiseV p) = True"
| "is_object v = False"

text \<open>
  The property of an object that a read finds among the listed ones, and the keys of a
  plain object.
\<close>

fun field :: "jsval \<Rightarrow> string \<Rightarrow> jsval option" where
  "field (Obj ps) k = map_of ps k"
| "field (ErrorObj name message ps) k = map_of ps k"
| "field v k = None"

fun keys :: "jsval \<Rightarrow> string list" where
  "keys (Obj ps) = map fst ps"
| "keys v = []"

subsection \<open>String conversion\<close>

text \<open>\<^verbatim>\<open>String(v)\<close> on a primitive value.\<close>

fun prim_to_string :: "jsval \<Rightarrow> string" where
  "prim_to_string Undefined = ''undefined''"
| "prim_to_string Null = ''null''"
| "prim_to_string (Bool b) = (if b then ''true'' else ''false'')"
| "prim_to_string (Num s) = s"
| "prim_to_string (Str s) = s"
| "prim_to_string v = []"

text \<open>
  The conversion of an object to a primitive with hint string: \<^verbatim>\<open>toString\<close> and then
  \<^verbatim>\<open>valueOf\<close> are looked up; a callable one is called, the first primitive result is
  taken, a raise propagates, and a TypeError is raised when neither gives a primitive.
  Where the object lists no \<^verbatim>\<open>toString\<close> the inherited one gives \<open>inherited\<close>; where it
  lists no \<^verbatim>\<open>valueOf\<close> the inherited one gives the object itself.
\<close>

fun first_primitive :: "jsval list \<Rightarrow> completion" where
  "first_primitive [] = Throw (TypeError ''Cannot convert object to primitive value'')"
| "first_primitive (Fn src (Throw x) # ms) = Throw x"
| "first_primitive (Fn src (Return r) # ms) =
     (if is_object r then first_primitive ms else Return r)"
| "first_primitive (m # ms) = first_primitive ms"

definition ordinary_to_primitive ::
  "string \<Rightarrow> jsval \<Rightarrow> (string \<times> jsval) list \<Rightarrow> completion" where
  "ordinary_to_primitive inherited self ps =
     first_primitive
       [case map_of ps ''toString'' of
          None \<Rightarrow> Fn ''function toString() { [native code] }'' (Return (Str inherited))
        | Some m \<Rightarrow> m,
        case map_of ps ''valueOf'' of
          None \<Rightarrow> Fn ''function valueOf() { [native code] }'' (Return self)
        | Some m \<Rightarrow> m]"

text \<open>What the \<^verbatim>\<open>toString\<close> of \<^verbatim>\<open>Error.prototype\<close> gives.\<close>

definition Error_toString :: "string \<Rightarrow> string \<Rightarrow> string" where
  "Error_toString name message =
     (if name = [] then message else if message = [] then name
      else name @ '': '' @ message)"

text \<open>\<^verbatim>\<open>String(v)\<close>: the string, or the value raised while converting.\<close>

fun String_js :: "jsval \<Rightarrow> jsval + string" where
  "String_js (ErrorObj name message ps) =
     (case ordinary_to_primitive (Error_toString name message) (ErrorObj name message ps) ps of
        Throw x \<Rightarrow> Inl x
      | Return r \<Rightarrow> Inr (prim_to_string r))"
| "String_js (Obj ps) =
     (case ordinary_to_primitive ''[object Object]'' (Obj ps) ps of
        Throw x \<Rightarrow> Inl x
      | Return r \<Rightarrow> Inr (prim_to_string r))"
| "String_js (Fn src c) = Inr src"
| "String_js (PromiseV p) = Inr ''[object Promise]''"
| "String_js v = Inr (prim_to_string v)"

subsection \<open>Method calls and promises\<close>

text \<open>
  \<^verbatim>\<open>(normalized as any).toClient()\<close>: reading the property of undefined or null raises, and
  so does calling a property that is missing or not a function.
\<close>

definition call_listed_toClient :: "(string \<times> jsval) list \<Rightarrow> completion" where
  "call_listed_toClient ps =
     (case map_of ps ''toClient'' of
        Some (Fn src c) \<Rightarrow> c
      | _ \<Rightarrow> Throw (TypeError ''normalized.toClient is not a function''))"

fun call_toClient :: "jsval \<Rightarrow> completion" where
  "call_toClient Undefined =
     Throw (TypeError ''Cannot read properties of undefined (reading toClient)'')"
| "call_toClient Null =
     Throw (TypeError ''Cannot read properties of null (reading toClient)'')"
| "call_toClient (Obj ps) = call_listed_toClient ps"
| "call_toClient (ErrorObj name message ps) = call_listed_toClient ps"
| "call_toClient v = Throw (TypeError ''normalized.toClient is not a function'')"

text \<open>
  Resolving a promise with a value: a native promise or a thenable is adopted, anything
  else fulfils. The \<^verbatim>\<open>then\<close> of a thenable is called with the two resolving functions;
  a modelled function ignores them, so the promise stays pending unless the call raises.
\<close>

definition adopt :: "jsval \<Rightarrow> (string \<times> jsval) list \<Rightarrow> pstate" where
  "adopt self ps =
     (case map_of ps ''then'' of
        Some (Fn src (Throw x)) \<Rightarrow> Rejected x
      | Some (Fn src (Return r)) \<Rightarrow> Pending
      | _ \<Rightarrow> Fulfilled self)"

fun promise_resolve :: "jsval \<Rightarrow> pstate" where
  "promise_resolve (PromiseV p) = p"
| "promise_resolve (Obj ps) = adopt (Obj ps) ps"
| "promise_resolve (ErrorObj name message ps) = adopt (ErrorObj name message ps) ps"
| "promise_resolve v = Fulfilled v"

text \<open>The state of the promise a handler's completion settles, and of an awaited completion.\<close>

fun settle :: "completion \<Rightarrow> pstate" where
  "settle (Return r) = promise_resolve r"
| "settle (Throw x) = Rejected x"

text \<open>
  \<^verbatim>\<open>p.then(onFulfilled)\<close> and \<^verbatim>\<open>p.catch(onRejected)\<close>. A handler returns the calls it made
  (to the injected dependencies) with its completion.
\<close>

fun promise_then :: "pstate \<Rightarrow> (jsval \<Rightarrow> 'e list \<times> completion) \<Rightarrow> 'e list \<times> pstate" where
  "promise_then (Fulfilled v) onFulfilled = (case onFulfilled v of (t, c) \<Rightarrow> (t, settle c))"
| "promise_then (Rejected e) onFulfilled = ([], Rejected e)"
| "promise_then Pending onFulfilled = ([], Pending)"

fun promise_catch :: "pstate \<Rightarrow> (jsval \<Rightarrow> 'e list \<times> completion) \<Rightarrow> 'e list \<times> pstate" where
  "promise_catch (Fulfilled v) onRejected = ([], Fulfilled v)"
| "promise_catch (Rejected e) onRejected = (case onRejected e of (t, c) \<Rightarrow> (t, settle c))"
| "promise_catch Pending onRejected = ([], Pending)"

subsection \<open>JSON\<close>

text \<open>
  \<^verbatim>\<open>JSON.parse(JSON.stringify(v))\<close>, property by property. A property whose value is
  undefined or a function is omitted; a number that is not finite comes back as null; an
  object, an Error instance included, comes back as the plain object of its own
  enumerable properties, which are none for a Promise; an object on which a callable
  \<^verbatim>\<open>toJSON\<close> is found is replaced by what the call returns, and a raise in it propagates.
\<close>

definition finite_number :: "string \<Rightarrow> bool" where
  "finite_number s \<longleftrightarrow> s \<noteq> ''NaN'' \<and> s \<noteq> ''Infinity'' \<and> s \<noteq> ''-Infinity''"

datatype ser = Omitted | Ser jsval | SerThrow jsval

fun roundtrip_prop :: "jsval \<Rightarrow> ser"
  and roundtrip_hook :: "(string \<times> jsval) list \<Rightarrow> ser option"
  and roundtrip_val :: "jsval \<Rightarrow> ser"
  and roundtrip_props :: "(string \<times> jsval) list \<Rightarrow> jsval + (string \<times> jsval) list" where
  "roundtrip_prop (Obj ps) =
     (case roundtrip_hook ps of
        Some s \<Rightarrow> s
      | None \<Rightarrow> (case roundtrip_props ps of Inl x \<Rightarrow> SerThrow x | Inr qs \<Rightarrow> Ser (Obj qs)))"
| "roundtrip_prop (ErrorObj name message ps) =
     (case roundtrip_hook ps of
        Some s \<Rightarrow> s
      | None \<Rightarrow> (case roundtrip_props ps of Inl x \<Rightarrow> SerThrow x | Inr qs \<Rightarrow> Ser (Obj qs)))"
| "roundtrip_prop Undefined = roundtrip_val Undefined"
| "roundtrip_prop Null = roundtrip_val Null"
| "roundtrip_prop (Bool b) = roundtrip_val (Bool b)"
| "roundtrip_prop (Num n) = roundtrip_val (Num n)"
| "roundtrip_prop (Str s) = roundtrip_val (Str s)"
| "roundtrip_prop (Fn src c) = roundtrip_val (Fn src c)"
| "roundtrip_prop (PromiseV p) = roundtrip_val (PromiseV p)"
| "roundtrip_hook [] = None"
| "roundtrip_hook ((k, v) # ps) =
     (if k = ''toJSON'' then
        (case v of
           Fn src (Throw x) \<Rightarrow> Some (SerThrow x)
         | Fn src (Return r) \<Rightarrow> Some (roundtrip_val r)
         | _ \<Rightarrow> None)
      else roundtrip_hook ps)"
| "roundtrip_val Undefined = Omitted"
| "roundtrip_val Null = Ser Null"
| "roundtrip_val (Bool b) = Ser (Bool b)"
| "roundtrip_val (Num n) = (if finite_number n then Ser (Num n) else Ser Null)"
| "roundtrip_val (Str s) = Ser (Str s)"
| "roundtrip_val (ErrorObj name message ps) =
     (case roundtrip_props ps of Inl x \<Rightarrow> SerThrow x | Inr qs \<Rightarrow> Ser (Obj qs))"
| "roundtrip_val (Obj ps) =
     (case roundtrip_props ps of Inl x \<Rightarrow> SerThrow x | Inr qs \<Rightarrow> Ser (Obj qs))"
| "roundtrip_val (Fn src c) = Omitted"
| "roundtrip_val (PromiseV p) = Ser (Obj [])"
| "roundtrip_props [] = Inr []"
| "roundtrip_props ((k, v) # ps) =
     (case roundtrip_prop v of
        SerThrow x \<Rightarrow> Inl x
      | Omitted \<Rightarrow> roundtrip_props ps
      | Ser r \<Rightarrow> (case roundtrip_props ps of Inl x \<Rightarrow> Inl x | Inr qs \<Rightarrow> Inr ((k, r) # qs)))"

text \<open>
  The whole round trip of a value: \<^verbatim>\<open>JSON.stringify\<close> gives undefined for a value that
  is omitted, and \<^verbatim>\<open>JSON.parse\<close> raises on it.
\<close>

definition JSON_roundtrip :: "jsval \<Rightarrow> completion" where
  "JSON_roundtrip v =
     (case roundtrip_prop v of
        Omitted \<Rightarrow> Throw (ErrorObj ''SyntaxError'' ''undefined is not valid JSON'' [])
      | Ser r \<Rightarrow> Return r
      | SerThrow x \<Rightarrow> Throw x)"

section \<open>The attempt engine (src/attempt.ts)\<close>

text \<open>
  The second argument of the normalizer: \<^verbatim>\<open>errors ? { when: errors } : undefined\<close>.
\<close>

datatype aux = AuxUndefined | AuxWhen "jsval \<Rightarrow> jsval"

definition when_context :: "(jsval \<Rightarrow> jsval) option \<Rightarrow> aux" where
  "when_context errors' = (case errors' of None \<Rightarrow> AuxUndefined | Some f \<Rightarrow> AuxWhen f)"

text \<open>
  The injected dependencies. Each may raise, so each returns a completion. The logger is
  a function or an object with an \<^verbatim>\<open>error\<close> method; logger and reporter are optional.
\<close>

datatype logger = LoggerFn "jsval \<Rightarrow> completion" | LoggerObj "jsval \<Rightarrow> completion"

record AttemptDependencies =
  normalizeError :: "jsval \<Rightarrow> aux \<Rightarrow> completion"
  logger :: "logger option"
  reporter :: "(jsval \<Rightarrow> completion) option"

text \<open>The options; \<open>None\<close> is a property that is absent or undefined.\<close>

record TryOptions =
  report :: "bool option"
  client :: "bool option"
  errors :: "(jsval \<Rightarrow> jsval) option"

text \<open>The default \<^verbatim>\<open>options = {}\<close>.\<close>

definition no_options :: TryOptions where
  "no_options = \<lparr>report = None, client = None, errors = None\<rparr>"

text \<open>
  An abort signal. The operation and the callbacks of the bag thread a state \<open>'s\<close>, the
  world the retries run in; the signal is triggered in the states that \<open>aborted\<close> holds
  of, and \<open>reason\<close> is the value an abort surfaces.
\<close>

record 's AbortSignal =
  aborted :: "'s \<Rightarrow> bool"
  reason :: jsval

text \<open>
  Modelled from the spec: the retry bag \<^verbatim>\<open>PRetryOptions\<close>. The sources declare the
  per-attempt callback, the abort predicate and the signal; the callback and the predicate
  are given the error of the failed attempt and the number of the attempt, and the callback
  may change the state. The \<^verbatim>\<open>WrapOptions\<close> part of the bag is declared in the package
  retry, which is not part of the sources: the collaborator's configuration includes a
  maximum-retries count, and the bag is that configuration's type, so the bag may carry a
  count. For that key \<open>None\<close> is the key absent, \<open>Some None\<close> the key present and holding
  undefined, \<open>Some (Some r)\<close> the key holding the integral number \<open>r\<close>. Delays are not
  modelled, and counts that are not integers are outside the model.
\<close>

record 's PRetryOptions =
  onFailedAttempt :: "(jsval \<Rightarrow> nat \<Rightarrow> 's \<Rightarrow> 's) option"
  shouldRetry :: "(jsval \<Rightarrow> nat \<Rightarrow> bool) option"
  signal :: "'s AbortSignal option"
  retries :: "int option option"

text \<open>
  \<^verbatim>\<open>TryWithRetryOptions\<close>; \<open>tries\<close> is an integral number, or absent or undefined.
\<close>

record 's TryWithRetryOptions = TryOptions +
  tries :: "int option"
  retry :: "'s PRetryOptions option"

definition no_retry_options :: "'s TryWithRetryOptions" where
  "no_retry_options =
     \<lparr>report = None, client = None, errors = None, tries = None, retry = None\<rparr>"

text \<open>The calls made to the dependencies, in the order they are made.\<close>

datatype call = NormalizeCall jsval aux | LoggerCall jsval | ReporterCall jsval

text \<open>\<^verbatim>\<open>Attempt.ok\<close> and \<^verbatim>\<open>Attempt.error\<close>.\<close>

definition Attempt_ok :: "jsval \<Rightarrow> jsval" where
  "Attempt_ok data = Obj [(''ok'', Bool True), (''error'', Undefined), (''data'', data)]"

definition Attempt_error :: "jsval \<Rightarrow> jsval" where
  "Attempt_error errorInfo =
     Obj [(''ok'', Bool False), (''error'', errorInfo), (''data'', Undefined)]"

text \<open>
  The reporting block of \<^verbatim>\<open>handleError\<close>: the logger, then the reporter; a raise in the
  logger ends the block before the reporter is called.
\<close>

definition call_logger :: "AttemptDependencies \<Rightarrow> jsval \<Rightarrow> call list \<times> completion" where
  "call_logger deps error =
     (case logger deps of
        None \<Rightarrow> ([], Return Undefined)
      | Some (LoggerFn f) \<Rightarrow> ([LoggerCall error], f error)
      | Some (LoggerObj f) \<Rightarrow> ([LoggerCall error], f error))"

definition call_reporter :: "AttemptDependencies \<Rightarrow> jsval \<Rightarrow> call list \<times> completion" where
  "call_reporter deps error =
     (case reporter deps of
        None \<Rightarrow> ([], Return Undefined)
      | Some f \<Rightarrow> ([ReporterCall error], f error))"

definition reporting :: "AttemptDependencies \<Rightarrow> jsval \<Rightarrow> call list \<times> completion" where
  "reporting deps error =
     (case call_logger deps error of
        (t1, Throw x) \<Rightarrow> (t1, Throw x)
      | (t1, Return u) \<Rightarrow>
          (case call_reporter deps error of (t2, c) \<Rightarrow> (t1 @ t2, c)))"

text \<open>\<^verbatim>\<open>error instanceof Error ? error : new Error(String(error))\<close>.\<close>

definition originalError :: "jsval \<Rightarrow> completion" where
  "originalError error =
     (if instanceof_Error error then Return error
      else (case String_js error of
              Inl x \<Rightarrow> Throw x
            | Inr s \<Rightarrow> Return (new_Error s)))"

text \<open>\<^verbatim>\<open>Attempt.handleError\<close>: the calls made, and the Outcome returned or the value raised.\<close>

definition handleError :: "AttemptDependencies \<Rightarrow> jsval \<Rightarrow> TryOptions \<Rightarrow> call list \<times> completion" where
  "handleError deps error options =
     (let shouldReport = (case report options of None \<Rightarrow> True | Some b \<Rightarrow> b);
          client' = (case client options of None \<Rightarrow> False | Some b \<Rightarrow> b);
          ctx = when_context (errors options)
      in case normalizeError deps error ctx of
           Throw x \<Rightarrow> ([NormalizeCall error ctx], Throw x)
         | Return normalized \<Rightarrow>
             (case (if shouldReport then reporting deps error else ([], Return Undefined)) of
                (t, Throw x) \<Rightarrow> (NormalizeCall error ctx # t, Throw x)
              | (t, Return u) \<Rightarrow>
                  (NormalizeCall error ctx # t,
                   if client' then
                     (case call_toClient normalized of
                        Throw x \<Rightarrow> Throw x
                      | Return clientError \<Rightarrow>
                          Return (Attempt_error (Obj [(''client'', clientError)])))
                   else
                     (case originalError error of
                        Throw x \<Rightarrow> Throw x
                      | Return original \<Rightarrow>
                          Return (Attempt_error
                            (Obj [(''error'', original), (''normalized'', normalized)]))))))"

text \<open>
  \<^verbatim>\<open>Attempt.try\<close>. The operation is called once; \<open>fn\<close> is the completion of that call.
\<close>

definition Attempt_try :: "AttemptDependencies \<Rightarrow> completion \<Rightarrow> TryOptions \<Rightarrow> call list \<times> completion" where
  "Attempt_try deps fn options =
     (case fn of
        Throw error \<Rightarrow> handleError deps error options
      | Return result \<Rightarrow>
          (case result of
             PromiseV p \<Rightarrow>
               (case promise_then p (\<lambda>data. ([], Return (Attempt_ok data))) of
                  (t1, p1) \<Rightarrow>
                    (case promise_catch p1 (\<lambda>error. handleError deps error options) of
                       (t2, p2) \<Rightarrow> (t1 @ t2, Return (PromiseV p2))))
           | _ \<Rightarrow> ([], Return (Attempt_ok result))))"

subsection \<open>The retry collaborator\<close>

text \<open>
  The configuration handed to the collaborator: \<^verbatim>\<open>{ retries, ...retryOptions }\<close>. A key
  of the bag overrides the count taken from \<^verbatim>\<open>tries\<close>, also when it holds undefined.
\<close>

record 's RetryConfig =
  cfg_retries :: "int option"
  cfg_onFailedAttempt :: "(jsval \<Rightarrow> nat \<Rightarrow> 's \<Rightarrow> 's) option"
  cfg_shouldRetry :: "(jsval \<Rightarrow> nat \<Rightarrow> bool) option"
  cfg_signal :: "'s AbortSignal option"

definition spread_config :: "int \<Rightarrow> 's PRetryOptions option \<Rightarrow> 's RetryConfig" where
  "spread_config n retryOptions =
     (case retryOptions of
        None \<Rightarrow>
          \<lparr>cfg_retries = Some n, cfg_onFailedAttempt = None, cfg_shouldRetry = None,
           cfg_signal = None\<rparr>
      | Some bag \<Rightarrow>
          \<lparr>cfg_retries = (case retries bag of None \<Rightarrow> Some n | Some r \<Rightarrow> r),
           cfg_onFailedAttempt = onFailedAttempt bag,
           cfg_shouldRetry = shouldRetry bag,
           cfg_signal = signal bag\<rparr>)"

text \<open>The reason of the signal, when there is a signal and it is triggered in the state.\<close>

definition abort_reason :: "'s AbortSignal option \<Rightarrow> 's \<Rightarrow> jsval option" where
  "abort_reason sg s =
     (case sg of
        None \<Rightarrow> None
      | Some a \<Rightarrow> if aborted a s then Some (reason a) else None)"

text \<open>
  Modelled from the spec: the attempts of \<^verbatim>\<open>pRetry\<close> of the package p-retry, which is
  not part of the sources. The attempts run one after the other, each settled before the
  next begins. After an attempt that raises or rejects the per-attempt callback is called.
  Once the signal is triggered no further attempt is made and the abort is surfaced as the
  failure. Otherwise an attempt that succeeded settles the whole; one that failed is
  retried while retries are left and the abort predicate does not decline, and is the final
  failure when they are spent or it declines. The result carries the state after the last
  attempt and the settlements of the attempts made, in order: the operation was invoked
  once for each.
\<close>

fun pRetry_attempts ::
  "('s \<Rightarrow> completion \<times> 's) \<Rightarrow> (jsval \<Rightarrow> nat \<Rightarrow> 's \<Rightarrow> 's) \<Rightarrow> (jsval \<Rightarrow> nat \<Rightarrow> bool)
     \<Rightarrow> ('s \<Rightarrow> jsval option) \<Rightarrow> nat \<Rightarrow> nat \<Rightarrow> 's \<Rightarrow> pstate \<times> 's \<times> pstate list" where
  "pRetry_attempts input notify should abort 0 attemptNumber s =
     (case input s of
        (c, s1) \<Rightarrow>
          (case settle c of
             Rejected e \<Rightarrow>
               (case abort (notify e attemptNumber s1) of
                  Some r \<Rightarrow> (Rejected r, notify e attemptNumber s1, [Rejected e])
                | None \<Rightarrow> (Rejected e, notify e attemptNumber s1, [Rejected e]))
           | p \<Rightarrow>
               (case abort s1 of
                  Some r \<Rightarrow> (Rejected r, s1, [p])
                | None \<Rightarrow> (p, s1, [p]))))"
| "pRetry_attempts input notify should abort (Suc k) attemptNumber s =
     (case input s of
        (c, s1) \<Rightarrow>
          (case settle c of
             Rejected e \<Rightarrow>
               (case abort (notify e attemptNumber s1) of
                  Some r \<Rightarrow> (Rejected r, notify e attemptNumber s1, [Rejected e])
                | None \<Rightarrow>
                    (if should e attemptNumber then
                       (case pRetry_attempts input notify should abort k (Suc attemptNumber)
                               (notify e attemptNumber s1) of
                          (q, s2, log) \<Rightarrow> (q, s2, Rejected e # log))
                     else (Rejected e, notify e attemptNumber s1, [Rejected e])))
           | p \<Rightarrow>
               (case abort s1 of
                  Some r \<Rightarrow> (Rejected r, s1, [p])
                | None \<Rightarrow> (p, s1, [p]))))"

text \<open>
  Modelled from the spec: \<^verbatim>\<open>pRetry\<close>. It takes the maximum-retries count from the
  configuration, and a signal that is triggered from the start is surfaced before any
  attempt. The spec is silent on a configuration that holds no count and on a negative
  count: the package documents ten retries for the first and refuses the second, before
  any attempt.
\<close>

definition pRetry ::
  "('s \<Rightarrow> completion \<times> 's) \<Rightarrow> 's RetryConfig \<Rightarrow> 's \<Rightarrow> pstate \<times> 's \<times> pstate list" where
  "pRetry input cfg s =
     (let count = (case cfg_retries cfg of None \<Rightarrow> 10 | Some r \<Rightarrow> r)
      in if count < 0 then
           (Rejected (TypeError ''Expected retries to be a non-negative number''), s, [])
         else
           (case abort_reason (cfg_signal cfg) s of
              Some r \<Rightarrow> (Rejected r, s, [])
            | None \<Rightarrow>
                pRetry_attempts input
                  (case cfg_onFailedAttempt cfg of None \<Rightarrow> (\<lambda>e k s'. s') | Some f \<Rightarrow> f)
                  (case cfg_shouldRetry cfg of None \<Rightarrow> (\<lambda>e k. True) | Some f \<Rightarrow> f)
                  (abort_reason (cfg_signal cfg))
                  (nat count) 1 s))"

text \<open>
  \<^verbatim>\<open>Attempt.retry\<close>: the calls made to the dependencies, the promise returned, the state
  after the last attempt and the settlements of the attempts made; the number of
  invocations of the operation is the length of that list.
\<close>

definition Attempt_retry ::
  "AttemptDependencies \<Rightarrow> ('s \<Rightarrow> completion \<times> 's) \<Rightarrow> 's TryWithRetryOptions \<Rightarrow> 's
     \<Rightarrow> call list \<times> completion \<times> 's \<times> pstate list" where
  "Attempt_retry deps fn options s =
     (let retries' = (case tries options of None \<Rightarrow> 3 | Some n \<Rightarrow> n);
          retryOptions = retry options;
          tryOptions = TryOptions.truncate options
      in case pRetry fn (spread_config retries' retryOptions) s of
           (p, s', log) \<Rightarrow>
             (case promise_then p (\<lambda>data. ([], Return (Attempt_ok data))) of
                (t1, p1) \<Rightarrow>
                  (case promise_catch p1 (\<lambda>error. handleError deps error tryOptions) of
                     (t2, p2) \<Rightarrow> (t1 @ t2, Return (PromiseV p2), s', log))))"

section \<open>The default instance (src/index.ts)\<close>

text \<open>
  \<^verbatim>\<open>defaultNormalizer\<close> and the object it returns; it ignores its second argument.
\<close>

definition SimpleError :: "string \<Rightarrow> jsval" where
  "SimpleError message =
     Obj [(''message'', Str message),
          (''code'', Str ''UNKNOWN_ERROR''),
          (''userMessage'', Str ''An error occurred''),
          (''toClient'', Fn ''() => ({ message, code, userMessage })''
             (Return (Obj
               [(''message'', Str message),
                (''code'', Str ''UNKNOWN_ERROR''),
                (''userMessage'', Str ''An error occurred'')])))]"

definition defaultNormalizer :: "jsval \<Rightarrow> aux \<Rightarrow> completion" where
  "defaultNormalizer error ctx =
     (case (case error of
              ErrorObj name message ps \<Rightarrow> Inr message
            | _ \<Rightarrow> String_js error) of
        Inl x \<Rightarrow> Throw x
      | Inr message \<Rightarrow> Return (SimpleError message))"

text \<open>\<^verbatim>\<open>attempt\<close>: the default normalizer, the console as logger, no reporter.\<close>

definition attempt :: AttemptDependencies where
  "attempt =
     \<lparr>normalizeError = defaultNormalizer,
      logger = Some (LoggerObj (\<lambda>error. Return Undefined)),
      reporter = None\<rparr>"

section \<open>Properties\<close>

subsection \<open>Predicates\<close>

text \<open>A completion that is a normal return.\<close>

fun returns :: "completion \<Rightarrow> bool" where
  "returns (Return r) = True"
| "returns (Throw x) = False"

text \<open>The logger and the reporter, where configured, return normally on a caught value.\<close>

definition quiet :: "AttemptDependencies \<Rightarrow> jsval \<Rightarrow> bool" where
  "quiet deps e \<longleftrightarrow> returns (snd (call_logger deps e)) \<and> returns (snd (call_reporter deps e))"

text \<open>The shape of an Outcome: the three keys, and the unused slot set to undefined.\<close>

definition well_shaped :: "jsval \<Rightarrow> bool" where
  "well_shaped v \<longleftrightarrow>
     keys v = [''ok'', ''error'', ''data''] \<and>
     (field v ''ok'' = Some (Bool True) \<and> field v ''error'' = Some Undefined \<or>
      field v ''ok'' = Some (Bool False) \<and> field v ''data'' = Some Undefined)"

text \<open>A property value that can be called.\<close>

fun callable :: "jsval option \<Rightarrow> bool" where
  "callable (Some (Fn src c)) = True"
| "callable v = False"

text \<open>A value whose conversion to a string returns.\<close>

definition printable :: "jsval \<Rightarrow> bool" where
  "printable v = (case String_js v of Inl x \<Rightarrow> False | Inr m \<Rightarrow> True)"

text \<open>
  A value occurs in another when it is that value or occurs in one of its properties, in
  what it returns or raises when called, or in what it settles with.
\<close>

fun occurs :: "jsval \<Rightarrow> jsval \<Rightarrow> bool"
  and occurs_props :: "jsval \<Rightarrow> (string \<times> jsval) list \<Rightarrow> bool"
  and occurs_completion :: "jsval \<Rightarrow> completion \<Rightarrow> bool"
  and occurs_pstate :: "jsval \<Rightarrow> pstate \<Rightarrow> bool" where
  "occurs x Undefined = (x = Undefined)"
| "occurs x Null = (x = Null)"
| "occurs x (Bool b) = (x = Bool b)"
| "occurs x (Num n) = (x = Num n)"
| "occurs x (Str s) = (x = Str s)"
| "occurs x (ErrorObj name message ps) = (x = ErrorObj name message ps \<or> occurs_props x ps)"
| "occurs x (Obj ps) = (x = Obj ps \<or> occurs_props x ps)"
| "occurs x (Fn src c) = (x = Fn src c \<or> occurs_completion x c)"
| "occurs x (PromiseV p) = (x = PromiseV p \<or> occurs_pstate x p)"
| "occurs_props x [] = False"
| "occurs_props x ((k, v) # ps) = (occurs x v \<or> occurs_props x ps)"
| "occurs_completion x (Return r) = occurs x r"
| "occurs_completion x (Throw r) = occurs x r"
| "occurs_pstate x (Fulfilled r) = occurs x r"
| "occurs_pstate x (Rejected r) = occurs x r"
| "occurs_pstate x Pending = False"

text \<open>
  Plain data: null, booleans, finite numbers, strings, and objects with distinct keys
  whose properties are plain data in turn.
\<close>

fun json_data :: "jsval \<Rightarrow> bool"
  and json_props :: "(string \<times> jsval) list \<Rightarrow> bool" where
  "json_data Null = True"
| "json_data (Bool b) = True"
| "json_data (Num n) = finite_number n"
| "json_data (Str s) = True"
| "json_data (Obj ps) = (distinct (map fst ps) \<and> json_props ps)"
| "json_data Undefined = False"
| "json_data (ErrorObj name message ps) = False"
| "json_data (Fn src c) = False"
| "json_data (PromiseV p) = False"
| "json_props [] = True"
| "json_props ((k, v) # ps) = (json_data v \<and> json_props ps)"

text \<open>
  What retry asks of the collaborator and what the collaborator gives; the settlements of
  the attempts retry made; the signal of the retry bag.
\<close>

definition retry_run ::
  "('s \<Rightarrow> completion \<times> 's) \<Rightarrow> 's TryWithRetryOptions \<Rightarrow> 's \<Rightarrow> pstate \<times> 's \<times> pstate list" where
  "retry_run fn options s =
     pRetry fn (spread_config (case tries options of None \<Rightarrow> 3 | Some n \<Rightarrow> n) (retry options)) s"

definition attempts_made ::
  "AttemptDependencies \<Rightarrow> ('s \<Rightarrow> completion \<times> 's) \<Rightarrow> 's TryWithRetryOptions \<Rightarrow> 's \<Rightarrow> pstate list"
  where
  "attempts_made deps fn options s = snd (snd (snd (Attempt_retry deps fn options s)))"

definition bag_signal :: "'s TryWithRetryOptions \<Rightarrow> 's AbortSignal option" where
  "bag_signal options = (case retry options of None \<Rightarrow> None | Some bag \<Rightarrow> signal bag)"

subsection \<open>Concrete runs\<close>

text \<open>
  Dependencies: the ones of the README, with a logger function and a reporter; the same
  with a logger that raises; a normalizer that returns the same normalized error whatever
  it is given; and one whose result has no \<^verbatim>\<open>toClient\<close>.
\<close>

definition reporting_deps :: AttemptDependencies where
  "reporting_deps =
     \<lparr>normalizeError = defaultNormalizer,
      logger = Some (LoggerFn (\<lambda>error. Return Undefined)),
      reporter = Some (\<lambda>error. Return Undefined)\<rparr>"

definition raising_logger_deps :: AttemptDependencies where
  "raising_logger_deps =
     \<lparr>normalizeError = defaultNormalizer,
      logger = Some (LoggerFn (\<lambda>error. Throw (new_Error ''logger down''))),
      reporter = Some (\<lambda>error. Return Undefined)\<rparr>"

definition fixed_deps :: AttemptDependencies where
  "fixed_deps =
     \<lparr>normalizeError = (\<lambda>error ctx. Return (SimpleError ''normalized'')),
      logger = None, reporter = None\<rparr>"

definition bare_deps :: AttemptDependencies where
  "bare_deps =
     \<lparr>normalizeError = (\<lambda>error ctx. Return (Obj [(''message'', Str ''failed'')])),
      logger = None, reporter = None\<rparr>"

text \<open>Options.\<close>

definition client_options :: TryOptions where
  "client_options = \<lparr>report = None, client = Some True, errors = None\<rparr>"

definition classifier :: "jsval \<Rightarrow> jsval" where
  "classifier error = Str ''DEFAULT''"

definition classified_options :: TryOptions where
  "classified_options = \<lparr>report = None, client = None, errors = Some classifier\<rparr>"

definition silent_options :: TryOptions where
  "silent_options = \<lparr>report = Some False, client = None, errors = Some classifier\<rparr>"

definition client_retry_options :: "'s TryWithRetryOptions" where
  "client_retry_options =
     \<lparr>report = None, client = Some True, errors = None, tries = Some 1, retry = None\<rparr>"

definition two_tries_options :: "'s TryWithRetryOptions" where
  "two_tries_options =
     \<lparr>report = None, client = None, errors = None, tries = Some 2, retry = None\<rparr>"

definition zero_tries_options :: "'s TryWithRetryOptions" where
  "zero_tries_options =
     \<lparr>report = None, client = None, errors = None, tries = Some 0, retry = None\<rparr>"

definition three_tries_options :: "'s TryWithRetryOptions" where
  "three_tries_options =
     \<lparr>report = None, client = None, errors = None, tries = Some 3, retry = None\<rparr>"

definition override_options :: "'s TryWithRetryOptions" where
  "override_options =
     \<lparr>report = None, client = None, errors = None, tries = Some 0,
      retry = Some \<lparr>onFailedAttempt = None, shouldRetry = None, signal = None,
                     retries = Some (Some 2)\<rparr>\<rparr>"

definition declining_options :: "'s TryWithRetryOptions" where
  "declining_options =
     \<lparr>report = None, client = None, errors = None, tries = Some 3,
      retry = Some \<lparr>onFailedAttempt = None, shouldRetry = Some (\<lambda>error attemptNumber. False),
                     signal = None, retries = None\<rparr>\<rparr>"

text \<open>An operation that raises the same error at every invocation; it has no state.\<close>

definition always_fails :: "unit \<Rightarrow> completion \<times> unit" where
  "always_fails u = (Throw (new_Error ''always fails''), u)"

text \<open>
  An operation that counts its invocations, raises at the first two and returns at the
  third.
\<close>

definition third_time_lucky :: "nat \<Rightarrow> completion \<times> nat" where
  "third_time_lucky attempts =
     (if Suc attempts < 3 then Throw (new_Error ''retry me'') else Return (Str ''success''),
      Suc attempts)"

text \<open>
  An operation that counts its invocations, raises at the first three and would return
  at the fourth.
\<close>

definition fourth_time_lucky :: "nat \<Rightarrow> completion \<times> nat" where
  "fourth_time_lucky attempts =
     (if Suc attempts < 4 then Throw (new_Error ''retry me'') else Return (Str ''success''),
      Suc attempts)"

text \<open>A thrown object whose \<^verbatim>\<open>toString\<close> raises.\<close>

definition unprintable :: jsval where
  "unprintable = Obj [(''toString'', Fn ''() => { throw boom }'' (Throw (Str ''boom'')))]"

text \<open>
  An instance of the subclass of Error with the field \<^verbatim>\<open>code = 500\<close> and an own
  \<^verbatim>\<open>name\<close>.
\<close>

definition CustomError :: "string \<Rightarrow> jsval" where
  "CustomError message =
     ErrorObj ''CustomError'' message [(''code'', Num ''500''), (''name'', Str ''CustomError'')]"

text \<open>The client projection of the default normalizer.\<close>

definition SimpleClientError :: "string \<Rightarrow> jsval" where
  "SimpleClientError message =
     Obj [(''message'', Str message), (''code'', Str ''UNKNOWN_ERROR''),
          (''userMessage'', Str ''An error occurred'')]"

subsection \<open>How the entry points reduce to the failure-handling procedure\<close>

lemma try_throw: "Attempt_try deps (Throw e) opts = handleError deps e opts"
  by (simp add: Attempt_try_def)

lemma resolve_ok: "promise_resolve (Attempt_ok d) = Fulfilled (Attempt_ok d)"
  by (simp add: Attempt_ok_def adopt_def)

lemma resolve_error: "promise_resolve (Attempt_error p) = Fulfilled (Attempt_error p)"
  by (simp add: Attempt_error_def adopt_def)

lemma try_plain:
  "\<not> instanceof_Promise v \<Longrightarrow> Attempt_try deps (Return v) opts = ([], Return (Attempt_ok v))"
  by (cases v) (simp_all add: Attempt_try_def)

lemma handleError_shape:
  "snd (handleError deps e opts) = Return v \<Longrightarrow> \<exists>p. v = Attempt_error p"
  by (auto simp: handleError_def Let_def
      split: option.splits prod.splits completion.splits bool.splits if_splits)

lemma settle_handleError:
  "settle (snd (handleError deps e opts)) =
     (case snd (handleError deps e opts) of Return v \<Rightarrow> Fulfilled v | Throw x \<Rightarrow> Rejected x)"
proof (cases "snd (handleError deps e opts)")
  case (Return v)
  then obtain p where "v = Attempt_error p"
    using handleError_shape by blast
  with Return show ?thesis
    by (simp add: resolve_error)
next
  case (Throw x)
  then show ?thesis by simp
qed

lemma try_unfold:
  "Attempt_try deps (Return v) opts =
     (case v of
        PromiseV p \<Rightarrow>
          (case p of
             Fulfilled d \<Rightarrow> ([], Return (PromiseV (Fulfilled (Attempt_ok d))))
           | Rejected e \<Rightarrow>
               (fst (handleError deps e opts),
                Return (PromiseV (case snd (handleError deps e opts) of
                                    Return outcome \<Rightarrow> Fulfilled outcome
                                  | Throw x \<Rightarrow> Rejected x)))
           | Pending \<Rightarrow> ([], Return (PromiseV Pending)))
      | _ \<Rightarrow> ([], Return (Attempt_ok v)))"
proof (cases v)
  case (PromiseV p)
  then show ?thesis
    by (cases p)
       (simp_all add: Attempt_try_def resolve_ok settle_handleError case_prod_beta)
qed (simp_all add: try_plain)

lemma try_rejected:
  "Attempt_try deps (Return (PromiseV (Rejected e))) opts =
     (fst (handleError deps e opts),
      Return (PromiseV (case snd (handleError deps e opts) of
                          Return v \<Rightarrow> Fulfilled v | Throw x \<Rightarrow> Rejected x)))"
  by (simp add: try_unfold)

lemma try_return_returns: "returns (snd (Attempt_try deps (Return v) opts))"
  by (simp add: try_unfold split: jsval.splits pstate.splits)

lemma retry_unfold:
  "Attempt_retry deps fn ropts s =
     (case retry_run fn ropts s of
        (p, s', log) \<Rightarrow>
          (case (case p of
                   Fulfilled d \<Rightarrow> ([], Fulfilled (Attempt_ok d))
                 | Rejected e \<Rightarrow>
                     (fst (handleError deps e (TryOptions.truncate ropts)),
                      case snd (handleError deps e (TryOptions.truncate ropts)) of
                        Return v \<Rightarrow> Fulfilled v | Throw x \<Rightarrow> Rejected x)
                 | Pending \<Rightarrow> ([], Pending)) of
             (t, p2) \<Rightarrow> (t, Return (PromiseV p2), s', log)))"
proof -
  obtain p s' log where P: "retry_run fn ropts s = (p, s', log)"
    by (cases "retry_run fn ropts s") auto
  then have P': "pRetry fn
      (spread_config (case tries ropts of None \<Rightarrow> 3 | Some n \<Rightarrow> n) (retry ropts)) s
        = (p, s', log)"
    by (simp add: retry_run_def)
  show ?thesis
    by (cases p)
       (simp_all add: Attempt_retry_def Let_def P P' resolve_ok settle_handleError case_prod_beta)
qed

lemma retry_rejected:
  assumes "fst (retry_run fn ropts s) = Rejected e"
  shows "fst (Attempt_retry deps fn ropts s) = fst (handleError deps e (TryOptions.truncate ropts))"
    and "fst (snd (Attempt_retry deps fn ropts s)) =
      Return (PromiseV (case snd (handleError deps e (TryOptions.truncate ropts)) of
                          Return v \<Rightarrow> Fulfilled v | Throw x \<Rightarrow> Rejected x))"
  using assms by (simp_all add: retry_unfold case_prod_beta)

lemma retry_returns: "returns (fst (snd (Attempt_retry deps fn ropts s)))"
  by (simp add: retry_unfold case_prod_beta)


subsection \<open>The failure-handling procedure\<close>

lemma handleError_result:
  assumes N: "normalizeError deps e (when_context (errors opts)) = Return n"
    and Q: "report opts \<noteq> Some False \<longrightarrow> quiet deps e"
  shows "snd (handleError deps e opts) =
     (if client opts = Some True then
        (case call_toClient n of
           Throw x \<Rightarrow> Throw x
         | Return c \<Rightarrow> Return (Attempt_error (Obj [(''client'', c)])))
      else
        (case originalError e of
           Throw x \<Rightarrow> Throw x
         | Return original \<Rightarrow>
             Return (Attempt_error (Obj [(''error'', original), (''normalized'', n)]))))"
  using N Q
  by (auto simp: handleError_def quiet_def reporting_def Let_def
      split: option.splits prod.splits completion.splits bool.splits)

lemma handleError_trace:
  "fst (handleError deps e opts) =
     NormalizeCall e (case errors opts of None \<Rightarrow> AuxUndefined | Some f \<Rightarrow> AuxWhen f) #
       (case normalizeError deps e (when_context (errors opts)) of
          Throw x \<Rightarrow> []
        | Return n \<Rightarrow>
            if report opts = Some False then []
            else
              (case logger deps of
                 None \<Rightarrow> (case reporter deps of None \<Rightarrow> [] | Some r \<Rightarrow> [ReporterCall e])
               | Some (LoggerFn f) \<Rightarrow>
                   LoggerCall e #
                     (case f e of
                        Throw x \<Rightarrow> []
                      | Return u \<Rightarrow>
                          (case reporter deps of None \<Rightarrow> [] | Some r \<Rightarrow> [ReporterCall e]))
               | Some (LoggerObj f) \<Rightarrow>
                   LoggerCall e #
                     (case f e of
                        Throw x \<Rightarrow> []
                      | Return u \<Rightarrow>
                          (case reporter deps of None \<Rightarrow> [] | Some r \<Rightarrow> [ReporterCall e]))))"
  by (cases "normalizeError deps e (when_context (errors opts))")
     (auto simp: handleError_def reporting_def call_logger_def call_reporter_def Let_def
        when_context_def
      split: option.splits prod.splits completion.splits bool.splits logger.splits)

lemma no_callable_toClient:
  "\<not> callable (field n ''toClient'') \<Longrightarrow> \<exists>x. call_toClient n = Throw x"
proof (cases n)
  case (Obj ps)
  assume "\<not> callable (field n ''toClient'')"
  with Obj show ?thesis
    by (cases "map_of ps ''toClient''") (auto simp: call_listed_toClient_def split: jsval.splits)
next
  case (ErrorObj name message ps)
  assume "\<not> callable (field n ''toClient'')"
  with ErrorObj show ?thesis
    by (cases "map_of ps ''toClient''") (auto simp: call_listed_toClient_def split: jsval.splits)
qed simp_all

lemma raising_toClient:
  "field n ''toClient'' = Some (Fn src (Throw y)) \<Longrightarrow> call_toClient n = Throw y"
  by (cases n) (simp_all add: call_listed_toClient_def)

lemma occurs_client_outcome:
  "occurs x (Attempt_error (Obj [(''client'', c)])) \<longleftrightarrow>
     x = Attempt_error (Obj [(''client'', c)]) \<or> x = Obj [(''client'', c)]
     \<or> x = Bool False \<or> x = Undefined \<or> occurs x c"
  by (auto simp: Attempt_error_def)

subsection \<open>The collaborator's attempts\<close>



subsection \<open>The JSON round trip of an Outcome\<close>

lemma json_data_roundtrip:
  "json_data v \<longrightarrow> roundtrip_prop v = Ser v \<and> roundtrip_val v = Ser v"
  "json_props ps \<longrightarrow> roundtrip_hook ps = None \<and> roundtrip_props ps = Inr ps"
proof (induction v and ps rule: json_data_json_props.induct)
  case (11 k v ps)
  then show ?case by (cases v) auto
qed auto

lemma roundtrip_val_plain: "roundtrip_val v = Ser r \<Longrightarrow> \<not> instanceof_Error r"
  by (cases v) (auto split: sum.splits if_splits)

lemma roundtrip_hook_plain: "roundtrip_hook ps = Some (Ser r) \<Longrightarrow> \<not> instanceof_Error r"
proof (induction ps)
  case Nil
  then show ?case by simp
next
  case (Cons kv ps)
  obtain k v where kv: "kv = (k, v)" by (cases kv) auto
  show ?case
    using Cons kv roundtrip_val_plain
    by (auto split: if_splits jsval.splits completion.splits)
qed

lemma roundtrip_prop_plain: "roundtrip_prop v = Ser r \<Longrightarrow> \<not> instanceof_Error r"
  using roundtrip_hook_plain roundtrip_val_plain
  by (cases v) (auto split: option.splits sum.splits if_splits)

lemma roundtrip_ok:
  "roundtrip_prop (Attempt_ok d) =
     (case roundtrip_prop d of
        SerThrow x \<Rightarrow> SerThrow x
      | Omitted \<Rightarrow> Ser (Obj [(''ok'', Bool True)])
      | Ser d' \<Rightarrow> Ser (Obj [(''ok'', Bool True), (''data'', d')]))"
  by (simp add: Attempt_ok_def split: ser.splits)

lemma roundtrip_error:
  "roundtrip_prop (Attempt_error p) =
     (case roundtrip_prop p of
        SerThrow x \<Rightarrow> SerThrow x
      | Omitted \<Rightarrow> Ser (Obj [(''ok'', Bool False)])
      | Ser p' \<Rightarrow> Ser (Obj [(''ok'', Bool False), (''error'', p')]))"
  by (simp add: Attempt_error_def split: ser.splits)

lemma roundtrip_internal:
  "roundtrip_prop (Obj [(''error'', x), (''normalized'', n)]) =
     (case roundtrip_prop x of
        SerThrow y \<Rightarrow> SerThrow y
      | Omitted \<Rightarrow>
          (case roundtrip_prop n of
             SerThrow y \<Rightarrow> SerThrow y
           | Omitted \<Rightarrow> Ser (Obj [])
           | Ser n' \<Rightarrow> Ser (Obj [(''normalized'', n')]))
      | Ser x' \<Rightarrow>
          (case roundtrip_prop n of
             SerThrow y \<Rightarrow> SerThrow y
           | Omitted \<Rightarrow> Ser (Obj [(''error'', x')])
           | Ser n' \<Rightarrow> Ser (Obj [(''error'', x'), (''normalized'', n')])))"
  by (simp split: ser.splits)

lemma roundtrip_client:
  "roundtrip_prop (Obj [(''client'', c)]) =
     (case roundtrip_prop c of
        SerThrow x \<Rightarrow> SerThrow x
      | Omitted \<Rightarrow> Ser (Obj [])
      | Ser c' \<Rightarrow> Ser (Obj [(''client'', c')]))"
  by (simp split: ser.splits)

subsection \<open>Concrete runs\<close>

text \<open>The definitions a concrete run unfolds.\<close>

lemmas run_defs =
  Attempt_try_def Attempt_retry_def handleError_def reporting_def call_logger_def
  call_reporter_def originalError_def when_context_def Attempt_ok_def Attempt_error_def
  no_options_def no_retry_options_def attempt_def defaultNormalizer_def SimpleError_def
  SimpleClientError_def CustomError_def new_Error_def TypeError_def quiet_def well_shaped_def
  printable_def pRetry_def spread_config_def abort_reason_def retry_run_def attempts_made_def
  bag_signal_def reporting_deps_def raising_logger_deps_def fixed_deps_def bare_deps_def
  client_options_def classified_options_def silent_options_def client_retry_options_def
  two_tries_options_def zero_tries_options_def three_tries_options_def override_options_def
  declining_options_def always_fails_def third_time_lucky_def
  fourth_time_lucky_def unprintable_def ordinary_to_primitive_def Error_toString_def
  call_listed_toClient_def adopt_def finite_number_def JSON_roundtrip_def
  TryOptions.truncate_def Let_def

lemma truncate_client_retry: "TryOptions.truncate client_retry_options = client_options"
  by (simp add: client_retry_options_def client_options_def TryOptions.truncate_def)

lemma always_fails_client_run:
  "retry_run always_fails client_retry_options () =
     (Rejected (new_Error ''always fails''), (),
      [Rejected (new_Error ''always fails''), Rejected (new_Error ''always fails'')])"
  by (simp add: run_defs eval_nat_numeral)

lemma truncate_two_tries: "TryOptions.truncate two_tries_options = no_options"
  by (simp add: two_tries_options_def no_options_def TryOptions.truncate_def)

lemma always_fails_two_tries_run:
  "fst (retry_run always_fails two_tries_options ()) = Rejected (new_Error ''always fails'')"
  by (simp add: run_defs eval_nat_numeral)

lemma client_run:
  "snd (Attempt_try attempt (Throw (new_Error ''always fails'')) client_options) =
     Return (Attempt_error (Obj [(''client'', SimpleClientError ''always fails'')]))"
  by (simp add: run_defs)

lemma internal_run:
  "snd (Attempt_try attempt (Throw (new_Error ''test error'')) no_options) =
     Return (Attempt_error
       (Obj [(''error'', new_Error ''test error''), (''normalized'', SimpleError ''test error'')]))"
  by (simp add: run_defs)

section \<open>The claims\<close>

subsection \<open>Failures become Outcomes\<close>

text \<open>
  C1, as amended. Let the normalizer return normally on the caught value, and the logger
  and the reporter too when reporting is on. Let moreover, in client mode, the call of
  \<^verbatim>\<open>toClient\<close> on the normalized error return, and, otherwise, the caught value be an
  Error instance or have a string form. Then a synchronous throw gives a failure Outcome
  returned directly; a rejection gives a Promise fulfilled with the same Outcome; and
  retry, when the collaborator's final failure is that value, gives a Promise fulfilled
  with it. A call whose operation returns never raises, and retry always returns a
  Promise.
\<close>

theorem never_raises:
  assumes N: "normalizeError deps e (when_context (errors opts)) = Return n"
    and Q: "report opts \<noteq> Some False \<longrightarrow> quiet deps e"
    and P: "if client opts = Some True then returns (call_toClient n)
            else instanceof_Error e \<or> printable e"
  shows "\<exists>outcome. well_shaped outcome \<and> field outcome ''ok'' = Some (Bool False)
     \<and> snd (Attempt_try deps (Throw e) opts) = Return outcome
     \<and> snd (Attempt_try deps (Return (PromiseV (Rejected e))) opts) =
         Return (PromiseV (Fulfilled outcome))
     \<and> (\<forall>ropts. TryOptions.truncate ropts = opts \<and> fst (retry_run op ropts s) = Rejected e \<longrightarrow>
          fst (snd (Attempt_retry deps op ropts s)) = Return (PromiseV (Fulfilled outcome)))
     \<and> (\<forall>v. returns (snd (Attempt_try deps (Return v) opts)))
     \<and> (\<forall>ropts. returns (fst (snd (Attempt_retry deps op ropts s))))"
proof -
  have "\<exists>p. snd (handleError deps e opts) = Return (Attempt_error p)"
  proof (cases "client opts = Some True")
    case True
    with P obtain c where "call_toClient n = Return c"
      by (cases "call_toClient n") auto
    with True show ?thesis
      using handleError_result [OF N Q] by auto
  next
    case False
    with P have "\<exists>original. originalError e = Return original"
      by (cases "String_js e") (auto simp: originalError_def printable_def)
    with False show ?thesis
      using handleError_result [OF N Q] by auto
  qed
  then obtain p where h: "snd (handleError deps e opts) = Return (Attempt_error p)"
    by blast
  have w: "well_shaped (Attempt_error p) \<and> field (Attempt_error p) ''ok'' = Some (Bool False)"
    by (simp add: well_shaped_def Attempt_error_def)
  show ?thesis
    using h w
    by (intro exI [of _ "Attempt_error p"])
       (auto simp: try_throw try_rejected retry_rejected try_return_returns retry_returns)
qed

theorem never_raises_witness:
  "snd (Attempt_try attempt (Throw (new_Error ''always fails'')) client_options) =
     Return (Attempt_error (Obj [(''client'', SimpleClientError ''always fails'')]))
   \<and> snd (Attempt_try attempt (Return (PromiseV (Rejected (new_Error ''always fails''))))
        client_options) =
     Return (PromiseV (Fulfilled
       (Attempt_error (Obj [(''client'', SimpleClientError ''always fails'')]))))
   \<and> fst (snd (Attempt_retry attempt always_fails client_retry_options ())) =
     Return (PromiseV (Fulfilled
       (Attempt_error (Obj [(''client'', SimpleClientError ''always fails'')]))))"
proof -
  have N: "normalizeError attempt (new_Error ''always fails'')
      (when_context (errors client_options)) = Return (SimpleError ''always fails'')"
    by (simp add: run_defs)
  have Q: "report client_options \<noteq> Some False \<longrightarrow> quiet attempt (new_Error ''always fails'')"
    by (simp add: run_defs)
  have P: "if client client_options = Some True
      then returns (call_toClient (SimpleError ''always fails''))
      else instanceof_Error (new_Error ''always fails'') \<or> printable (new_Error ''always fails'')"
    by (simp add: run_defs)
  have R: "TryOptions.truncate client_retry_options = client_options
      \<and> fst (retry_run always_fails client_retry_options ()) = Rejected (new_Error ''always fails'')"
    by (simp add: truncate_client_retry always_fails_client_run)
  show ?thesis
    using never_raises [OF N Q P, where op = always_fails and s = "()"] R client_run
    by auto
qed

text \<open>
  The claim without the condition on \<^verbatim>\<open>toClient\<close> fails: the normalizer returns, none
  of the dependencies raises, and try raises in client mode, because the normalized error
  has no \<^verbatim>\<open>toClient\<close>.
\<close>

theorem never_raises_counterexample:
  "normalizeError bare_deps (new_Error ''boom'') (when_context (errors client_options)) =
     Return (Obj [(''message'', Str ''failed'')])
   \<and> quiet bare_deps (new_Error ''boom'')
   \<and> snd (Attempt_try bare_deps (Throw (new_Error ''boom'')) client_options) =
       Throw (TypeError ''normalized.toClient is not a function'')"
  by (simp add: run_defs)

subsection \<open>The client payload\<close>

text \<open>
  C2, as amended. In client mode, when the normalizer returns normally, the logger and
  the reporter do too when reporting is on, and \<^verbatim>\<open>toClient\<close> of the normalized error
  returns \<open>c\<close>, try and retry give the failure Outcome whose payload is the object with
  the single key client, holding \<open>c\<close>. A value occurs in that Outcome only as the Outcome
  itself, as its payload, as the constants false and undefined of its slots, or inside
  \<open>c\<close>: the caught value and the normalized error are in it only where the projection put
  them.
\<close>

theorem client_failure_payload:
  assumes N: "normalizeError deps e (when_context (errors opts)) = Return n"
    and Q: "report opts \<noteq> Some False \<longrightarrow> quiet deps e"
    and C: "client opts = Some True"
    and T: "call_toClient n = Return c"
  shows "snd (Attempt_try deps (Throw e) opts) =
       Return (Obj [(''ok'', Bool False), (''error'', Obj [(''client'', c)]),
                    (''data'', Undefined)])
     \<and> snd (Attempt_try deps (Return (PromiseV (Rejected e))) opts) =
       Return (PromiseV (Fulfilled
         (Obj [(''ok'', Bool False), (''error'', Obj [(''client'', c)]),
               (''data'', Undefined)])))
     \<and> (\<forall>ropts. TryOptions.truncate ropts = opts \<and> fst (retry_run op ropts s) = Rejected e \<longrightarrow>
          fst (snd (Attempt_retry deps op ropts s)) =
            Return (PromiseV (Fulfilled
              (Obj [(''ok'', Bool False), (''error'', Obj [(''client'', c)]),
                    (''data'', Undefined)]))))
     \<and> keys (Obj [(''client'', c)]) = [''client'']
     \<and> (\<forall>x. occurs x (Obj [(''ok'', Bool False), (''error'', Obj [(''client'', c)]),
                             (''data'', Undefined)]) \<longrightarrow>
          x = Obj [(''ok'', Bool False), (''error'', Obj [(''client'', c)]),
                   (''data'', Undefined)]
          \<or> x = Obj [(''client'', c)] \<or> x = Bool False \<or> x = Undefined \<or> occurs x c)"
proof -
  have h: "snd (handleError deps e opts) =
      Return (Obj [(''ok'', Bool False), (''error'', Obj [(''client'', c)]),
                   (''data'', Undefined)])"
    using handleError_result [OF N Q] C T by (simp add: Attempt_error_def)
  have o: "\<forall>x. occurs x (Obj [(''ok'', Bool False), (''error'', Obj [(''client'', c)]),
                             (''data'', Undefined)]) \<longrightarrow>
          x = Obj [(''ok'', Bool False), (''error'', Obj [(''client'', c)]),
                   (''data'', Undefined)]
          \<or> x = Obj [(''client'', c)] \<or> x = Bool False \<or> x = Undefined \<or> occurs x c"
    using occurs_client_outcome [of _ c] by (simp add: Attempt_error_def)
  show ?thesis
    using h o by (auto simp: try_throw try_rejected retry_rejected)
qed

theorem client_failure_payload_witness:
  "snd (Attempt_try attempt (Throw (new_Error ''always fails'')) client_options) =
     Return (Obj [(''ok'', Bool False),
       (''error'', Obj [(''client'', SimpleClientError ''always fails'')]),
       (''data'', Undefined)])
   \<and> fst (snd (Attempt_retry attempt always_fails client_retry_options ())) =
     Return (PromiseV (Fulfilled (Obj [(''ok'', Bool False),
       (''error'', Obj [(''client'', SimpleClientError ''always fails'')]),
       (''data'', Undefined)])))
   \<and> \<not> occurs (new_Error ''always fails'') (Obj [(''ok'', Bool False),
       (''error'', Obj [(''client'', SimpleClientError ''always fails'')]),
       (''data'', Undefined)])
   \<and> \<not> occurs (SimpleError ''always fails'') (Obj [(''ok'', Bool False),
       (''error'', Obj [(''client'', SimpleClientError ''always fails'')]),
       (''data'', Undefined)])"
proof -
  have N: "normalizeError attempt (new_Error ''always fails'')
      (when_context (errors client_options)) = Return (SimpleError ''always fails'')"
    by (simp add: run_defs)
  have Q: "report client_options \<noteq> Some False \<longrightarrow> quiet attempt (new_Error ''always fails'')"
    by (simp add: run_defs)
  have C: "client client_options = Some True"
    by (simp add: run_defs)
  have T: "call_toClient (SimpleError ''always fails'') =
      Return (SimpleClientError ''always fails'')"
    by (simp add: run_defs)
  have R: "TryOptions.truncate client_retry_options = client_options
      \<and> fst (retry_run always_fails client_retry_options ()) = Rejected (new_Error ''always fails'')"
    by (simp add: truncate_client_retry always_fails_client_run)
  have e: "\<not> occurs (new_Error ''always fails'') (SimpleClientError ''always fails'')
      \<and> new_Error ''always fails'' \<noteq> Obj [(''ok'', Bool False),
          (''error'', Obj [(''client'', SimpleClientError ''always fails'')]),
          (''data'', Undefined)]
      \<and> new_Error ''always fails'' \<noteq> Obj [(''client'', SimpleClientError ''always fails'')]
      \<and> new_Error ''always fails'' \<noteq> Bool False \<and> new_Error ''always fails'' \<noteq> Undefined"
    by (simp add: run_defs)
  have n: "\<not> occurs (SimpleError ''always fails'') (SimpleClientError ''always fails'')
      \<and> SimpleError ''always fails'' \<noteq> Obj [(''ok'', Bool False),
          (''error'', Obj [(''client'', SimpleClientError ''always fails'')]),
          (''data'', Undefined)]
      \<and> SimpleError ''always fails'' \<noteq> Obj [(''client'', SimpleClientError ''always fails'')]
      \<and> SimpleError ''always fails'' \<noteq> Bool False \<and> SimpleError ''always fails'' \<noteq> Undefined"
    by (simp add: run_defs)
  show ?thesis
    using client_failure_payload [OF N Q C T, where op = always_fails and s = "()"] R e n
    by blast
qed

text \<open>
  The claim as it stands fails twice over. With the default instance a thrown string
  comes back inside the client payload, as the message of the projection: the caught value
  does occur in the returned value. And with a normalized error that has no
  \<^verbatim>\<open>toClient\<close>, although the normalizer returns and nothing is logged or reported, try
  returns no Outcome at all.
\<close>

theorem client_failure_counterexample:
  "snd (Attempt_try attempt (Throw (Str ''plain string'')) client_options) =
     Return (Attempt_error (Obj [(''client'', SimpleClientError ''plain string'')]))
   \<and> occurs (Str ''plain string'')
       (Attempt_error (Obj [(''client'', SimpleClientError ''plain string'')]))
   \<and> normalizeError bare_deps (Str ''plain string'') (when_context (errors client_options)) =
       Return (Obj [(''message'', Str ''failed'')])
   \<and> quiet bare_deps (Str ''plain string'')
   \<and> snd (Attempt_try bare_deps (Throw (Str ''plain string'')) client_options) =
       Throw (TypeError ''normalized.toClient is not a function'')"
  by (simp add: run_defs)

subsection \<open>The number of invocations\<close>




subsection \<open>Serialization\<close>

text \<open>
  C4, as amended. When the JSON round trip of an Outcome returns: a Success Outcome comes
  back with ok true and without an error key. A failure comes back with ok false and with
  a payload that keeps, in order, those of its keys whose values JSON does not omit, so an
  internal payload comes back with keys among error and normalized and without a client
  key, and a client payload with no key but client. What the error key of an internal
  payload comes back with is the round trip of the raw cause, never an Error instance: a
  plain Error comes back as the empty object, an Error with fields of its own as the
  object of those fields. A client payload whose projection is plain data comes back
  unchanged.
\<close>

theorem json_roundtrip_outcomes:
  "(JSON_roundtrip (Attempt_ok d) = Return r \<longrightarrow>
      field r ''ok'' = Some (Bool True) \<and> field r ''error'' = None)
   \<and> (JSON_roundtrip (Attempt_error (Obj [(''error'', x), (''normalized'', n)])) = Return r \<longrightarrow>
      field r ''ok'' = Some (Bool False) \<and>
      (\<exists>payload. field r ''error'' = Some payload
         \<and> keys payload =
             (if roundtrip_prop x = Omitted then [] else [''error'']) @
             (if roundtrip_prop n = Omitted then [] else [''normalized''])
         \<and> field payload ''client'' = None
         \<and> (\<forall>y. field payload ''error'' = Some y \<longrightarrow>
               roundtrip_prop x = Ser y \<and> \<not> instanceof_Error y)))
   \<and> (JSON_roundtrip (Attempt_error (Obj [(''client'', c)])) = Return r \<longrightarrow>
      field r ''ok'' = Some (Bool False) \<and>
      (\<exists>payload. field r ''error'' = Some payload
         \<and> keys payload = (if roundtrip_prop c = Omitted then [] else [''client''])
         \<and> field payload ''error'' = None
         \<and> field payload ''normalized'' = None))
   \<and> (json_data c \<longrightarrow>
      JSON_roundtrip (Attempt_error (Obj [(''client'', c)])) =
        Return (Obj [(''ok'', Bool False), (''error'', Obj [(''client'', c)])]))
   \<and> roundtrip_prop (ErrorObj name m []) = Ser (Obj [])
   \<and> (distinct (map fst ps) \<and> json_props ps \<longrightarrow>
        roundtrip_prop (ErrorObj name m ps) = Ser (Obj ps))"
proof -
  have success: "JSON_roundtrip (Attempt_ok d) = Return r \<Longrightarrow>
      field r ''ok'' = Some (Bool True) \<and> field r ''error'' = None"
    by (auto simp: JSON_roundtrip_def roundtrip_ok split: ser.splits)
  have internal:
    "JSON_roundtrip (Attempt_error (Obj [(''error'', x), (''normalized'', n)])) = Return r \<Longrightarrow>
      field r ''ok'' = Some (Bool False) \<and>
      (\<exists>payload. field r ''error'' = Some payload
         \<and> keys payload =
             (if roundtrip_prop x = Omitted then [] else [''error'']) @
             (if roundtrip_prop n = Omitted then [] else [''normalized''])
         \<and> field payload ''client'' = None
         \<and> (\<forall>y. field payload ''error'' = Some y \<longrightarrow>
               roundtrip_prop x = Ser y \<and> \<not> instanceof_Error y))"
    using roundtrip_prop_plain [of x]
    by (auto simp: JSON_roundtrip_def roundtrip_error roundtrip_internal split: ser.splits)
  have client: "JSON_roundtrip (Attempt_error (Obj [(''client'', c)])) = Return r \<Longrightarrow>
      field r ''ok'' = Some (Bool False) \<and>
      (\<exists>payload. field r ''error'' = Some payload
         \<and> keys payload = (if roundtrip_prop c = Omitted then [] else [''client''])
         \<and> field payload ''error'' = None
         \<and> field payload ''normalized'' = None)"
    by (auto simp: JSON_roundtrip_def roundtrip_error roundtrip_client split: ser.splits)
  have plain: "json_data c \<Longrightarrow>
      JSON_roundtrip (Attempt_error (Obj [(''client'', c)])) =
        Return (Obj [(''ok'', Bool False), (''error'', Obj [(''client'', c)])])"
    using json_data_roundtrip(1) [of c]
    by (simp add: JSON_roundtrip_def roundtrip_error roundtrip_client)
  have bare: "roundtrip_prop (ErrorObj name m []) = Ser (Obj [])"
    by simp
  have fields: "distinct (map fst ps) \<and> json_props ps \<Longrightarrow>
      roundtrip_prop (ErrorObj name m ps) = Ser (Obj ps)"
    using json_data_roundtrip(2) [of ps] by simp
  show ?thesis
    using success internal client plain bare fields by blast
qed

theorem json_roundtrip_outcomes_witness:
  "JSON_roundtrip (Attempt_ok (Num ''42'')) =
     Return (Obj [(''ok'', Bool True), (''data'', Num ''42'')])
   \<and> field (Obj [(''ok'', Bool True), (''data'', Num ''42'')]) ''error'' = None
   \<and> JSON_roundtrip (Attempt_error
        (Obj [(''error'', CustomError ''custom error''), (''normalized'', Fn [] (Return Null))]))
      = Return (Obj [(''ok'', Bool False),
          (''error'', Obj [(''error'',
             Obj [(''code'', Num ''500''), (''name'', Str ''CustomError'')])])])
   \<and> field (Obj [(''ok'', Bool False),
          (''error'', Obj [(''error'',
             Obj [(''code'', Num ''500''), (''name'', Str ''CustomError'')])])]) ''ok''
      = Some (Bool False)
   \<and> JSON_roundtrip (Attempt_error (Obj [(''client'', Undefined)]))
      = Return (Obj [(''ok'', Bool False), (''error'', Obj [])])
   \<and> field (Obj [(''ok'', Bool False), (''error'', Obj [])]) ''ok'' = Some (Bool False)
   \<and> JSON_roundtrip
        (Attempt_error (Obj [(''client'', SimpleClientError ''serialization test'')])) =
      Return (Obj [(''ok'', Bool False),
        (''error'', Obj [(''client'', SimpleClientError ''serialization test'')])])
   \<and> roundtrip_prop (CustomError ''custom error'') =
      Ser (Obj [(''code'', Num ''500''), (''name'', Str ''CustomError'')])"
proof -
  have H: "JSON_roundtrip (Attempt_ok (Num ''42'')) =
      Return (Obj [(''ok'', Bool True), (''data'', Num ''42'')])"
    by (simp add: run_defs)
  have I: "JSON_roundtrip (Attempt_error
        (Obj [(''error'', CustomError ''custom error''), (''normalized'', Fn [] (Return Null))]))
      = Return (Obj [(''ok'', Bool False),
          (''error'', Obj [(''error'',
             Obj [(''code'', Num ''500''), (''name'', Str ''CustomError'')])])])"
    by (simp add: run_defs)
  have K: "JSON_roundtrip (Attempt_error (Obj [(''client'', Undefined)]))
      = Return (Obj [(''ok'', Bool False), (''error'', Obj [])])"
    by (simp add: run_defs)
  have J: "json_data (SimpleClientError ''serialization test'')"
    by (simp add: SimpleClientError_def)
  have P: "distinct (map fst [(''code'', Num ''500''), (''name'', Str ''CustomError'')])
      \<and> json_props [(''code'', Num ''500''), (''name'', Str ''CustomError'')]"
    by (simp add: finite_number_def)
  have success: "field (Obj [(''ok'', Bool True), (''data'', Num ''42'')]) ''error'' = None
      \<and> JSON_roundtrip
        (Attempt_error (Obj [(''client'', SimpleClientError ''serialization test'')])) =
      Return (Obj [(''ok'', Bool False),
        (''error'', Obj [(''client'', SimpleClientError ''serialization test'')])])
      \<and> roundtrip_prop (ErrorObj ''CustomError'' ''custom error''
           [(''code'', Num ''500''), (''name'', Str ''CustomError'')]) =
        Ser (Obj [(''code'', Num ''500''), (''name'', Str ''CustomError'')])"
    using H J P json_roundtrip_outcomes [where d = "Num ''42''"
        and r = "Obj [(''ok'', Bool True), (''data'', Num ''42'')]"
        and c = "SimpleClientError ''serialization test''"
        and x = Undefined and n = Undefined
        and name = "''CustomError''" and m = "''custom error''"
        and ps = "[(''code'', Num ''500''), (''name'', Str ''CustomError'')]"]
    by blast
  have internal:
    "field (Obj [(''ok'', Bool False),
          (''error'', Obj [(''error'',
             Obj [(''code'', Num ''500''), (''name'', Str ''CustomError'')])])]) ''ok''
      = Some (Bool False)"
    using I json_roundtrip_outcomes [where d = Undefined
        and r = "Obj [(''ok'', Bool False),
          (''error'', Obj [(''error'',
             Obj [(''code'', Num ''500''), (''name'', Str ''CustomError'')])])]"
        and c = Undefined and x = "CustomError ''custom error''"
        and n = "Fn [] (Return Null)"
        and name = "[]" and m = "[]" and ps = "[]"]
    by blast
  have client: "field (Obj [(''ok'', Bool False), (''error'', Obj [])]) ''ok'' = Some (Bool False)"
    using K json_roundtrip_outcomes [where d = Undefined
        and r = "Obj [(''ok'', Bool False), (''error'', Obj [])]"
        and c = Undefined and x = Undefined and n = Undefined
        and name = "[]" and m = "[]" and ps = "[]"]
    by blast
  show ?thesis
    using H I K success internal client by (simp add: CustomError_def)
qed

text \<open>
  The claim as it stands fails on the contents of the payload: the internal failure that
  the default instance returns for a thrown Error comes back from JSON with the empty
  object in place of the Error, and with the normalized error stripped of its
  \<^verbatim>\<open>toClient\<close>.
\<close>

theorem json_roundtrip_counterexample:
  "snd (Attempt_try attempt (Throw (new_Error ''test error'')) no_options) =
     Return (Attempt_error
       (Obj [(''error'', new_Error ''test error''), (''normalized'', SimpleError ''test error'')]))
   \<and> JSON_roundtrip (Attempt_error
       (Obj [(''error'', new_Error ''test error''), (''normalized'', SimpleError ''test error'')])) =
     Return (Obj [(''ok'', Bool False),
       (''error'', Obj [(''error'', Obj []),
          (''normalized'', Obj [(''message'', Str ''test error''), (''code'', Str ''UNKNOWN_ERROR''),
             (''userMessage'', Str ''An error occurred'')])])])
   \<and> Obj [] \<noteq> new_Error ''test error''"
  by (simp add: run_defs)

subsection \<open>Shape symmetry of try\<close>



subsection \<open>The internal payload\<close>

text \<open>
  C6, as amended. Outside client mode, when the normalizer, the logger and the reporter
  return normally and the thrown value is an Error instance or has a string form, try
  gives, directly on a throw and through a fulfilled Promise on a rejection, the failure
  Outcome whose payload has exactly the keys error and normalized: error holds the thrown
  value itself when that is an Error instance and otherwise a new Error whose message is
  the string form; normalized holds what the normalizer returned.
\<close>

theorem internal_failure_payload:
  assumes N: "normalizeError deps e (when_context (errors opts)) = Return n"
    and Q: "report opts \<noteq> Some False \<longrightarrow> quiet deps e"
    and C: "client opts \<noteq> Some True"
    and S: "instanceof_Error e \<or> String_js e = Inr m"
  shows "snd (Attempt_try deps (Throw e) opts) =
       Return (Obj [(''ok'', Bool False),
         (''error'', Obj [(''error'', if instanceof_Error e then e else ErrorObj ''Error'' m []),
                          (''normalized'', n)]),
         (''data'', Undefined)])
     \<and> snd (Attempt_try deps (Return (PromiseV (Rejected e))) opts) =
       Return (PromiseV (Fulfilled (Obj [(''ok'', Bool False),
         (''error'', Obj [(''error'', if instanceof_Error e then e else ErrorObj ''Error'' m []),
                          (''normalized'', n)]),
         (''data'', Undefined)])))
     \<and> keys (Obj [(''error'', if instanceof_Error e then e else ErrorObj ''Error'' m []),
                   (''normalized'', n)]) = [''error'', ''normalized'']"
proof -
  have o: "originalError e = Return (if instanceof_Error e then e else ErrorObj ''Error'' m [])"
    using S by (auto simp: originalError_def new_Error_def)
  have h: "snd (handleError deps e opts) =
       Return (Obj [(''ok'', Bool False),
         (''error'', Obj [(''error'', if instanceof_Error e then e else ErrorObj ''Error'' m []),
                          (''normalized'', n)]),
         (''data'', Undefined)])"
    using handleError_result [OF N Q] C o by (simp add: Attempt_error_def)
  show ?thesis
    using h by (simp add: try_throw try_rejected)
qed

theorem internal_failure_payload_witness:
  "snd (Attempt_try attempt (Throw (Str ''plain string'')) no_options) =
     Return (Obj [(''ok'', Bool False),
       (''error'', Obj [(''error'', ErrorObj ''Error'' ''plain string'' []),
                        (''normalized'', SimpleError ''plain string'')]),
       (''data'', Undefined)])
   \<and> snd (Attempt_try attempt (Throw (Num ''18446744073709552000'')) no_options) =
     Return (Obj [(''ok'', Bool False),
       (''error'', Obj [(''error'', ErrorObj ''Error'' ''18446744073709552000'' []),
                        (''normalized'', SimpleError ''18446744073709552000'')]),
       (''data'', Undefined)])
   \<and> snd (Attempt_try attempt (Throw (CustomError ''custom error'')) no_options) =
     Return (Obj [(''ok'', Bool False),
       (''error'', Obj [(''error'', CustomError ''custom error''),
                        (''normalized'', SimpleError ''custom error'')]),
       (''data'', Undefined)])"
proof -
  have N: "normalizeError attempt (Str ''plain string'') (when_context (errors no_options))
      = Return (SimpleError ''plain string'')"
    by (simp add: run_defs)
  have Q: "report no_options \<noteq> Some False \<longrightarrow> quiet attempt (Str ''plain string'')"
    by (simp add: run_defs)
  have C: "client no_options \<noteq> Some True"
    by (simp add: run_defs)
  have S: "instanceof_Error (Str ''plain string'')
      \<or> String_js (Str ''plain string'') = Inr ''plain string''"
    by simp
  have N2: "normalizeError attempt (Num ''18446744073709552000'')
      (when_context (errors no_options)) = Return (SimpleError ''18446744073709552000'')"
    by (simp add: run_defs)
  have Q2: "report no_options \<noteq> Some False \<longrightarrow> quiet attempt (Num ''18446744073709552000'')"
    by (simp add: run_defs)
  have S2: "instanceof_Error (Num ''18446744073709552000'')
      \<or> String_js (Num ''18446744073709552000'') = Inr ''18446744073709552000''"
    by simp
  have N3: "normalizeError attempt (CustomError ''custom error'')
      (when_context (errors no_options)) = Return (SimpleError ''custom error'')"
    by (simp add: run_defs)
  have Q3: "report no_options \<noteq> Some False \<longrightarrow> quiet attempt (CustomError ''custom error'')"
    by (simp add: run_defs)
  have S3: "instanceof_Error (CustomError ''custom error'')
      \<or> String_js (CustomError ''custom error'') = Inr []"
    by (simp add: CustomError_def)
  have I3: "instanceof_Error (CustomError ''custom error'')"
    by (simp add: CustomError_def)
  show ?thesis
    using internal_failure_payload [OF N Q C S] internal_failure_payload [OF N2 Q2 C S2]
      internal_failure_payload [OF N3 Q3 C S3] I3
    by simp
qed

text \<open>
  The claim for any thrown value fails: a thrown object whose \<^verbatim>\<open>toString\<close> raises has
  no string form; the normalizer returns, no logger or reporter is configured, and try
  raises what \<^verbatim>\<open>toString\<close> raised.
\<close>

theorem internal_failure_counterexample:
  "normalizeError fixed_deps unprintable (when_context (errors no_options)) =
     Return (SimpleError ''normalized'')
   \<and> quiet fixed_deps unprintable
   \<and> \<not> instanceof_Error unprintable
   \<and> snd (Attempt_try fixed_deps (Throw unprintable) no_options) = Throw (Str ''boom'')"
  by (simp add: run_defs)

subsection \<open>The order of the calls\<close>

text \<open>
  C7, as amended. The first call of the failure-handling procedure is the normalizer's,
  on the caught value as it was caught, with the classifier under \<^verbatim>\<open>when\<close> if one was
  given and with undefined otherwise. No other call is made when the normalizer raises or
  report is false. Otherwise the logger, if one is configured, is called next, and then,
  if the logger returned or none is configured, the reporter, if one is configured, each
  on the same caught value; after a logger that raises the reporter is not called. A
  rejection and the final failure of retry make the same calls as a throw.
\<close>

theorem failure_call_order:
  "fst (Attempt_try deps (Throw e) opts) =
     NormalizeCall e (case errors opts of None \<Rightarrow> AuxUndefined | Some f \<Rightarrow> AuxWhen f) #
       (case normalizeError deps e (when_context (errors opts)) of
          Throw x \<Rightarrow> []
        | Return n \<Rightarrow>
            if report opts = Some False then []
            else
              (case logger deps of
                 None \<Rightarrow> (case reporter deps of None \<Rightarrow> [] | Some r \<Rightarrow> [ReporterCall e])
               | Some (LoggerFn f) \<Rightarrow>
                   LoggerCall e #
                     (case f e of
                        Throw x \<Rightarrow> []
                      | Return u \<Rightarrow>
                          (case reporter deps of None \<Rightarrow> [] | Some r \<Rightarrow> [ReporterCall e]))
               | Some (LoggerObj f) \<Rightarrow>
                   LoggerCall e #
                     (case f e of
                        Throw x \<Rightarrow> []
                      | Return u \<Rightarrow>
                          (case reporter deps of None \<Rightarrow> [] | Some r \<Rightarrow> [ReporterCall e]))))
   \<and> fst (Attempt_try deps (Return (PromiseV (Rejected e))) opts) =
       fst (Attempt_try deps (Throw e) opts)
   \<and> (\<forall>ropts. TryOptions.truncate ropts = opts \<and> fst (retry_run op ropts s) = Rejected e \<longrightarrow>
        fst (Attempt_retry deps op ropts s) = fst (Attempt_try deps (Throw e) opts))"
proof -
  have a: "fst (Attempt_try deps (Throw e) opts) = fst (handleError deps e opts)"
    by (simp add: try_throw)
  have b: "fst (Attempt_try deps (Return (PromiseV (Rejected e))) opts) =
       fst (Attempt_try deps (Throw e) opts)"
    by (simp add: try_throw try_rejected)
  have c: "\<forall>ropts. TryOptions.truncate ropts = opts \<and> fst (retry_run op ropts s) = Rejected e \<longrightarrow>
        fst (Attempt_retry deps op ropts s) = fst (Attempt_try deps (Throw e) opts)"
    by (auto simp: try_throw retry_rejected)
  show ?thesis
    using a b c handleError_trace [of deps e opts] by simp
qed

theorem failure_call_order_witness:
  "fst (Attempt_try reporting_deps (Throw (Str ''plain string'')) classified_options) =
     [NormalizeCall (Str ''plain string'') (AuxWhen classifier),
      LoggerCall (Str ''plain string''), ReporterCall (Str ''plain string'')]
   \<and> fst (Attempt_try reporting_deps (Return (PromiseV (Rejected (Str ''plain string''))))
        classified_options) =
     [NormalizeCall (Str ''plain string'') (AuxWhen classifier),
      LoggerCall (Str ''plain string''), ReporterCall (Str ''plain string'')]
   \<and> fst (Attempt_try raising_logger_deps (Throw (Str ''plain string'')) silent_options) =
     [NormalizeCall (Str ''plain string'') (AuxWhen classifier)]
   \<and> fst (Attempt_try attempt (Throw unprintable) no_options) =
     [NormalizeCall unprintable AuxUndefined]
   \<and> fst (Attempt_retry reporting_deps always_fails two_tries_options ()) =
     [NormalizeCall (new_Error ''always fails'') AuxUndefined,
      LoggerCall (new_Error ''always fails''), ReporterCall (new_Error ''always fails'')]"
proof -
  have R: "TryOptions.truncate two_tries_options = no_options
      \<and> fst (retry_run always_fails two_tries_options ()) = Rejected (new_Error ''always fails'')"
    by (simp add: truncate_two_tries always_fails_two_tries_run)
  have a: "fst (Attempt_try reporting_deps (Throw (Str ''plain string'')) classified_options) =
     [NormalizeCall (Str ''plain string'') (AuxWhen classifier),
      LoggerCall (Str ''plain string''), ReporterCall (Str ''plain string'')]
   \<and> fst (Attempt_try reporting_deps (Return (PromiseV (Rejected (Str ''plain string''))))
        classified_options) =
      fst (Attempt_try reporting_deps (Throw (Str ''plain string'')) classified_options)"
    using failure_call_order [where deps = reporting_deps and e = "Str ''plain string''"
        and opts = classified_options and op = always_fails and s = "()"]
    by (simp add: reporting_deps_def classified_options_def defaultNormalizer_def
        when_context_def)
  have b: "fst (Attempt_try raising_logger_deps (Throw (Str ''plain string'')) silent_options) =
     [NormalizeCall (Str ''plain string'') (AuxWhen classifier)]"
    using failure_call_order [where deps = raising_logger_deps and e = "Str ''plain string''"
        and opts = silent_options and op = always_fails and s = "()"]
    by (simp add: raising_logger_deps_def silent_options_def defaultNormalizer_def
        when_context_def)
  have c: "fst (Attempt_try attempt (Throw unprintable) no_options) =
     [NormalizeCall unprintable AuxUndefined]"
    using failure_call_order [where deps = attempt and e = unprintable
        and opts = no_options and op = always_fails and s = "()"]
    by (simp add: attempt_def no_options_def defaultNormalizer_def unprintable_def
        ordinary_to_primitive_def when_context_def)
  note f = failure_call_order [where deps = reporting_deps
        and e = "new_Error ''always fails''"
        and opts = no_options and op = always_fails and s = "()"]
  have d1: "fst (Attempt_try reporting_deps (Throw (new_Error ''always fails'')) no_options) =
     [NormalizeCall (new_Error ''always fails'') AuxUndefined,
      LoggerCall (new_Error ''always fails''), ReporterCall (new_Error ''always fails'')]"
    using f
    by (simp add: reporting_deps_def no_options_def defaultNormalizer_def new_Error_def
        when_context_def)
  have d2: "fst (Attempt_retry reporting_deps always_fails two_tries_options ()) =
      fst (Attempt_try reporting_deps (Throw (new_Error ''always fails'')) no_options)"
    using f R by blast
  have d: "fst (Attempt_retry reporting_deps always_fails two_tries_options ()) =
     [NormalizeCall (new_Error ''always fails'') AuxUndefined,
      LoggerCall (new_Error ''always fails''), ReporterCall (new_Error ''always fails'')]"
    using d1 d2 by simp
  show ?thesis using a b c d by simp
qed

text \<open>
  The claim as it stands fails where the logger raises: report is on, the normalizer
  returns, a reporter is configured, and the calls end with the logger's.
\<close>

theorem failure_call_order_counterexample:
  "report no_options = None
   \<and> normalizeError raising_logger_deps (new_Error ''test error'')
       (when_context (errors no_options)) = Return (SimpleError ''test error'')
   \<and> reporter raising_logger_deps \<noteq> None
   \<and> Attempt_try raising_logger_deps (Throw (new_Error ''test error'')) no_options =
       ([NormalizeCall (new_Error ''test error'') AuxUndefined,
         LoggerCall (new_Error ''test error'')],
        Throw (new_Error ''logger down''))"
  by (simp add: run_defs)

subsection \<open>Thenables that are not Promises\<close>

text \<open>
  C8. The deferred result is recognised by \<^verbatim>\<open>instanceof Promise\<close> alone. Whatever the
  operation returns that is not a Promise comes back at once as the data of a Success
  Outcome, with no call to the normalizer, the logger or the reporter. That holds for an
  object with a \<^verbatim>\<open>then\<close> method too: awaiting it would reject or stay pending, and try
  returns it unawaited.
\<close>

theorem try_thenable_not_awaited:
  "(\<not> instanceof_Promise v \<longrightarrow>
      Attempt_try deps (Return v) opts =
        ([], Return (Obj [(''ok'', Bool True), (''error'', Undefined), (''data'', v)])))
   \<and> (field v ''then'' = Some (Fn src c) \<longrightarrow>
      \<not> instanceof_Promise v \<and>
      settle (Return v) = (case c of Throw x \<Rightarrow> Rejected x | Return r \<Rightarrow> Pending) \<and>
      Attempt_try deps (Return v) opts =
        ([], Return (Obj [(''ok'', Bool True), (''error'', Undefined), (''data'', v)])))"
proof -
  have plain: "\<not> instanceof_Promise v \<Longrightarrow>
      Attempt_try deps (Return v) opts =
        ([], Return (Obj [(''ok'', Bool True), (''error'', Undefined), (''data'', v)]))"
    by (simp add: try_plain Attempt_ok_def)
  have thenable: "field v ''then'' = Some (Fn src c) \<Longrightarrow>
      \<not> instanceof_Promise v \<and>
      settle (Return v) = (case c of Throw x \<Rightarrow> Rejected x | Return r \<Rightarrow> Pending)"
    by (cases v; cases c) (simp_all add: adopt_def)
  show ?thesis using plain thenable by blast
qed

theorem try_thenable_not_awaited_witness:
  "settle (Return (Obj [(''then'', Fn ''(resolve, reject) => { throw late }'' (Throw (Str ''late'')))]))
     = Rejected (Str ''late'')
   \<and> Attempt_try attempt
       (Return (Obj [(''then'', Fn ''(resolve, reject) => { throw late }'' (Throw (Str ''late'')))]))
       no_options =
     ([], Return (Obj [(''ok'', Bool True), (''error'', Undefined),
        (''data'', Obj [(''then'', Fn ''(resolve, reject) => { throw late }'' (Throw (Str ''late'')))])]))"
  using try_thenable_not_awaited
    [where v = "Obj [(''then'', Fn ''(resolve, reject) => { throw late }'' (Throw (Str ''late'')))]"
       and src = "''(resolve, reject) => { throw late }''" and c = "Throw (Str ''late'')"
       and deps = attempt and opts = no_options]
  by (simp add: adopt_def)

subsection \<open>The unguarded projection\<close>

text \<open>
  C9. In client mode the procedure calls \<^verbatim>\<open>toClient\<close> on what the normalizer returned,
  whatever that is. When the normalizer, the logger and the reporter return normally but
  the normalized error has no callable \<^verbatim>\<open>toClient\<close>, or has one that raises, the call
  raises: try on a throw raises that value itself, try on a rejection returns a Promise
  rejected with it, and so does retry on its final failure. None of them gives an
  Outcome.
\<close>

theorem unguarded_toClient:
  assumes N: "normalizeError deps e (when_context (errors opts)) = Return n"
    and Q: "report opts \<noteq> Some False \<longrightarrow> quiet deps e"
    and C: "client opts = Some True"
    and T: "\<not> callable (field n ''toClient'') \<or> field n ''toClient'' = Some (Fn src (Throw y))"
  shows "\<exists>x. call_toClient n = Throw x
     \<and> snd (Attempt_try deps (Throw e) opts) = Throw x
     \<and> snd (Attempt_try deps (Return (PromiseV (Rejected e))) opts) =
         Return (PromiseV (Rejected x))
     \<and> (\<forall>ropts. TryOptions.truncate ropts = opts \<and> fst (retry_run op ropts s) = Rejected e \<longrightarrow>
          fst (snd (Attempt_retry deps op ropts s)) = Return (PromiseV (Rejected x)))"
proof -
  obtain x where x: "call_toClient n = Throw x"
    using T no_callable_toClient raising_toClient by blast
  have h: "snd (handleError deps e opts) = Throw x"
    using handleError_result [OF N Q] C x by simp
  show ?thesis
    using x h by (auto simp: try_throw try_rejected retry_rejected)
qed

theorem unguarded_toClient_witness:
  "snd (Attempt_try bare_deps (Throw (new_Error ''always fails'')) client_options) =
     Throw (TypeError ''normalized.toClient is not a function'')
   \<and> snd (Attempt_try bare_deps (Return (PromiseV (Rejected (new_Error ''always fails''))))
        client_options) =
     Return (PromiseV (Rejected (TypeError ''normalized.toClient is not a function'')))
   \<and> fst (snd (Attempt_retry bare_deps always_fails client_retry_options ())) =
     Return (PromiseV (Rejected (TypeError ''normalized.toClient is not a function'')))"
proof -
  have N: "normalizeError bare_deps (new_Error ''always fails'')
      (when_context (errors client_options)) = Return (Obj [(''message'', Str ''failed'')])"
    by (simp add: run_defs)
  have Q: "report client_options \<noteq> Some False \<longrightarrow> quiet bare_deps (new_Error ''always fails'')"
    by (simp add: run_defs)
  have C: "client client_options = Some True"
    by (simp add: run_defs)
  have T: "\<not> callable (field (Obj [(''message'', Str ''failed'')]) ''toClient'')
      \<or> field (Obj [(''message'', Str ''failed'')]) ''toClient'' = Some (Fn [] (Throw Undefined))"
    by simp
  have R: "TryOptions.truncate client_retry_options = client_options
      \<and> fst (retry_run always_fails client_retry_options ()) = Rejected (new_Error ''always fails'')"
    by (simp add: truncate_client_retry always_fails_client_run)
  have x: "call_toClient (Obj [(''message'', Str ''failed'')]) =
      Throw (TypeError ''normalized.toClient is not a function'')"
    by (simp add: call_listed_toClient_def)
  show ?thesis
    using unguarded_toClient [OF N Q C T, where op = always_fails and s = "()"] R x
    by auto
qed

subsection \<open>The three keys of an Outcome\<close>

text \<open>
  C10. An Outcome built by ok or by error has exactly the keys ok, error and data, in
  that order; on a success the error key is present and holds undefined, on a failure the
  data key is present and holds undefined. Whatever try returns is such an Outcome or a
  Promise that, when it fulfils, fulfils with one; retry always returns such a Promise.
\<close>

theorem outcome_three_keys:
  "keys (Attempt_ok d) = [''ok'', ''error'', ''data'']
   \<and> field (Attempt_ok d) ''ok'' = Some (Bool True)
   \<and> field (Attempt_ok d) ''error'' = Some Undefined
   \<and> field (Attempt_ok d) ''data'' = Some d
   \<and> keys (Attempt_error p) = [''ok'', ''error'', ''data'']
   \<and> field (Attempt_error p) ''ok'' = Some (Bool False)
   \<and> field (Attempt_error p) ''error'' = Some p
   \<and> field (Attempt_error p) ''data'' = Some Undefined
   \<and> (snd (Attempt_try deps fn opts) = Return v \<longrightarrow>
        (case v of
           PromiseV st \<Rightarrow> (case st of Fulfilled outcome \<Rightarrow> well_shaped outcome | _ \<Rightarrow> True)
         | _ \<Rightarrow> well_shaped v))
   \<and> (case fst (snd (Attempt_retry deps op ropts s)) of
         Return (PromiseV (Fulfilled outcome)) \<Rightarrow> well_shaped outcome
       | Return (PromiseV st) \<Rightarrow> True
       | _ \<Rightarrow> False)"
proof -
  have ok: "\<And>x. well_shaped (Attempt_ok x)"
    by (simp add: well_shaped_def Attempt_ok_def)
  have err: "\<And>x. well_shaped (Attempt_error x)"
    by (simp add: well_shaped_def Attempt_error_def)
  have he: "\<And>e o' opts. snd (handleError deps e opts) = Return o' \<Longrightarrow> well_shaped o'"
    using handleError_shape err by blast
  have t: "snd (Attempt_try deps fn opts) = Return v \<Longrightarrow>
        (case v of
           PromiseV st \<Rightarrow> (case st of Fulfilled outcome \<Rightarrow> well_shaped outcome | _ \<Rightarrow> True)
         | _ \<Rightarrow> well_shaped v)"
  proof (cases fn)
    case (Throw e)
    assume "snd (Attempt_try deps fn opts) = Return v"
    with Throw have "snd (handleError deps e opts) = Return v"
      by (simp add: try_throw)
    then obtain p where "v = Attempt_error p"
      using handleError_shape by blast
    then show ?thesis
      using err [of p] by (simp add: Attempt_error_def)
  next
    case (Return r)
    assume a: "snd (Attempt_try deps fn opts) = Return v"
    show ?thesis
    proof (cases r)
      case (PromiseV p)
      then show ?thesis using a Return he
        by (cases p) (auto simp: try_unfold ok split: completion.splits)
    qed (use a Return in \<open>auto simp: try_unfold Attempt_ok_def well_shaped_def\<close>)
  qed
  have r: "(case fst (snd (Attempt_retry deps op ropts s)) of
         Return (PromiseV (Fulfilled outcome)) \<Rightarrow> well_shaped outcome
       | Return (PromiseV st) \<Rightarrow> True
       | _ \<Rightarrow> False)"
    using he
    by (auto simp: retry_unfold ok split: prod.splits pstate.splits completion.splits)
  have k: "keys (Attempt_ok d) = [''ok'', ''error'', ''data'']
     \<and> field (Attempt_ok d) ''ok'' = Some (Bool True)
     \<and> field (Attempt_ok d) ''error'' = Some Undefined
     \<and> field (Attempt_ok d) ''data'' = Some d
     \<and> keys (Attempt_error p) = [''ok'', ''error'', ''data'']
     \<and> field (Attempt_error p) ''ok'' = Some (Bool False)
     \<and> field (Attempt_error p) ''error'' = Some p
     \<and> field (Attempt_error p) ''data'' = Some Undefined"
    by (simp add: Attempt_ok_def Attempt_error_def)
  show ?thesis using k t r by blast
qed

theorem outcome_three_keys_witness:
  "snd (Attempt_try attempt (Throw (new_Error ''test error'')) no_options) =
     Return (Attempt_error
       (Obj [(''error'', new_Error ''test error''), (''normalized'', SimpleError ''test error'')]))
   \<and> well_shaped (Attempt_error
       (Obj [(''error'', new_Error ''test error''), (''normalized'', SimpleError ''test error'')]))"
  using internal_run outcome_three_keys [where deps = attempt
      and fn = "Throw (new_Error ''test error'')" and opts = no_options
      and v = "Attempt_error
        (Obj [(''error'', new_Error ''test error''), (''normalized'', SimpleError ''test error'')])"
      and d = Undefined and p = Undefined and ropts = no_retry_options and s = "()"
      and op = "\<lambda>u. (Return Undefined, u)"]
  by (simp add: Attempt_error_def)

end
